theory Spec2Isabelle
  imports
    Main
    "HOL-Library.AList"
    "HOL-Library.Char_ord"
    "HOL-Library.List_Lexorder"
    "HOL-Library.Multiset"
begin

section \<open>JavaScript strings, numbers and opaque records\<close>

text \<open>
  A JavaScript string is modelled as a \<^typ>\<open>string\<close>, the list of the bytes of its
  UTF-8 encoding (the encoding \<^verbatim>\<open>writeFileSync(..., 'utf8')\<close> puts on disk). A byte
  below 128 is the ASCII character itself; a character outside ASCII is a run of bytes
  that are all 128 or more.

  \<^verbatim>\<open>String.prototype.toLowerCase\<close> maps \<^verbatim>\<open>A\<close>..\<^verbatim>\<open>Z\<close> to \<^verbatim>\<open>a\<close>..\<^verbatim>\<open>z\<close> and
  leaves every other ASCII character alone. Outside ASCII it maps letters to letters
  outside ASCII, with the one exception of the Kelvin sign (U+212A, lowered to
  \<^verbatim>\<open>k\<close>); none of the five state labels of the program contains a \<^verbatim>\<open>k\<close>, so
  leaving the bytes from 128 on unchanged decides every comparison with a label the way
  the built-in does.
\<close>

definition toLowerCase_char :: "char \<Rightarrow> char" where
  "toLowerCase_char c =
     (let n = (of_char c :: nat) in if 65 \<le> n \<and> n \<le> 90 then char_of (n + 32) else c)"

definition toLowerCase :: "string \<Rightarrow> string" where
  "toLowerCase s = map toLowerCase_char s"

text \<open>The backslash and the line feed, which a string literal of this file cannot hold.\<close>

definition backslash :: char where
  "backslash = CHR 0x5C"

definition newline :: char where
  "newline = CHR 0x0A"

text \<open>
  Numbers are the integers the program handles (identifiers, counts); a template
  literal prints such a number in decimal, with a minus sign when negative.
\<close>

function show_nat :: "nat \<Rightarrow> string" where
  "show_nat n = (if n < 10 then [''0123456789'' ! n]
                 else show_nat (n div 10) @ [''0123456789'' ! (n mod 10)])"
  by pat_completeness auto
termination
  by (relation "measure (\<lambda>n. n)") auto

declare show_nat.simps [simp del]

definition show_int :: "int \<Rightarrow> string" where
  "show_int i = (if i < 0 then ''-'' @ show_nat (nat (- i)) else show_nat (nat i))"

text \<open>
  Pull requests and meetings are typed \<^verbatim>\<open>any[]\<close>: an element is an object literal, a
  list of properties. Reading a property the object does not have gives
  \<^verbatim>\<open>undefined\<close>, and a template literal prints that as the word \<^verbatim>\<open>undefined\<close>.
\<close>

datatype js_value = JUndefined | JNumber int | JString string | JStrings "string list"

type_synonym js_object = "(string \<times> js_value) list"

definition getProp :: "js_object \<Rightarrow> string \<Rightarrow> js_value" where
  "getProp obj k = (case map_of obj k of None \<Rightarrow> JUndefined | Some v \<Rightarrow> v)"

text \<open>\<^verbatim>\<open>Array.prototype.join\<close> with an explicit separator.\<close>

fun join :: "string \<Rightarrow> string list \<Rightarrow> string" where
  "join sep [] = []"
| "join sep [x] = x"
| "join sep (x # y # ys) = x @ sep @ join sep (y # ys)"

fun template :: "js_value \<Rightarrow> string" where
  "template JUndefined = ''undefined''"
| "template (JNumber n) = show_int n"
| "template (JString s) = s"
| "template (JStrings ss) = join '','' ss"

section \<open>Work items and their classification\<close>

text \<open>
  A raw work item is \<^verbatim>\<open>{id, fields: {'System.Title', 'System.State',
  'System.WorkItemType', 'System.Tags', ...}}\<close>, with optional tags. Its properties
  \<^verbatim>\<open>id\<close> and \<^verbatim>\<open>fields\<close> are \<open>raw_id\<close> and \<open>fields'\<close> here, and the dots of the
  field names are underscores.
\<close>

record fields_bag =
  System_Title :: string
  System_State :: string
  System_WorkItemType :: string
  System_Tags :: "string option"

record raw_work_item =
  raw_id :: int
  fields' :: fields_bag

text \<open>\<^verbatim>\<open>interface WorkItem\<close>; the field \<^verbatim>\<open>id\<close> is \<open>item_id\<close> here.\<close>

record WorkItem =
  item_id :: int
  title :: string
  state :: string
  workItemType :: string
  tags :: "string option"

text \<open>The three buckets; the field \<^verbatim>\<open>open\<close> is \<open>open'\<close> here.\<close>

record categorized =
  inProgress :: "WorkItem list"
  open' :: "WorkItem list"
  pending :: "WorkItem list"

definition toWorkItem :: "raw_work_item \<Rightarrow> WorkItem" where
  "toWorkItem item =
     \<lparr> item_id = raw_id item,
       title = System_Title (fields' item),
       state = System_State (fields' item),
       workItemType = System_WorkItemType (fields' item),
       tags = System_Tags (fields' item) \<rparr>"

text \<open>The body of the \<^verbatim>\<open>forEach\<close> callback: one \<^verbatim>\<open>push\<close> at most, chosen by the switch.\<close>

definition categorize_step :: "categorized \<Rightarrow> raw_work_item \<Rightarrow> categorized" where
  "categorize_step categorized item =
     (let workItem = toWorkItem item;
          s = toLowerCase (System_State (fields' item))
      in if s = ''in progress'' \<or> s = ''active''
           then categorized\<lparr>inProgress := inProgress categorized @ [workItem]\<rparr>
         else if s = ''pending''
           then categorized\<lparr>pending := pending categorized @ [workItem]\<rparr>
         else if s = ''open'' \<or> s = ''new''
           then categorized\<lparr>open' := open' categorized @ [workItem]\<rparr>
         else categorized)"

definition categorizeWorkItems :: "raw_work_item list \<Rightarrow> categorized" where
  "categorizeWorkItems workItems =
     foldl categorize_step \<lparr> inProgress = [], open' = [], pending = [] \<rparr> workItems"

text \<open>
  What the specification calls a case-insensitive exact match: two strings are equal
  once the case of their letters is ignored.
\<close>

definition equalsIgnoreCase :: "string \<Rightarrow> string \<Rightarrow> bool" where
  "equalsIgnoreCase s t \<longleftrightarrow> toLowerCase s = toLowerCase t"

definition isInProgressState :: "string \<Rightarrow> bool" where
  "isInProgressState s \<longleftrightarrow> equalsIgnoreCase s ''in progress'' \<or> equalsIgnoreCase s ''active''"

definition isPendingState :: "string \<Rightarrow> bool" where
  "isPendingState s \<longleftrightarrow> equalsIgnoreCase s ''pending''"

definition isOpenState :: "string \<Rightarrow> bool" where
  "isOpenState s \<longleftrightarrow> equalsIgnoreCase s ''open'' \<or> equalsIgnoreCase s ''new''"

definition recognizedState :: "string \<Rightarrow> bool" where
  "recognizedState s \<longleftrightarrow> isInProgressState s \<or> isPendingState s \<or> isOpenState s"

section \<open>Journal entries\<close>

text \<open>
  \<^verbatim>\<open>interface JournalEntry\<close>. The field \<open>dayOfWeek\<close> is typed \<^verbatim>\<open>string\<close>, yet
  \<^verbatim>\<open>loadEntry\<close> stores \<^verbatim>\<open>days[NaN]\<close>, that is \<^verbatim>\<open>undefined\<close>, there when the date
  does not parse; so the model gives the field a \<^typ>\<open>js_value\<close>. The field \<^verbatim>\<open>notes\<close> is \<open>notes'\<close> here.
\<close>

record JournalEntry =
  date :: string
  dayOfWeek :: js_value
  workItems :: categorized
  pullRequests :: "js_object list"
  meetings :: "js_object list"
  accomplishments :: "string list"
  challenges :: "string list"
  nextSteps :: "string list"
  mood :: string
  notes' :: string

text \<open>\<^verbatim>\<open>date.toISOString().split('T')[0]\<close>, on the ISO text of the instant.\<close>

definition formatDate :: "string \<Rightarrow> string" where
  "formatDate isoText = takeWhile (\<lambda>c. c \<noteq> CHR ''T'') isoText"

text \<open>
  \<^verbatim>\<open>days[date.getDay()]\<close>: the argument is the result of the built-in \<^verbatim>\<open>getDay()\<close>,
  \<open>None\<close> standing for the \<^verbatim>\<open>NaN\<close> of an invalid date.
\<close>

definition days :: "string list" where
  "days = [''Sunday'', ''Monday'', ''Tuesday'', ''Wednesday'', ''Thursday'', ''Friday'',
           ''Saturday'']"

definition getDayOfWeek :: "nat option \<Rightarrow> js_value" where
  "getDayOfWeek d =
     (case d of None \<Rightarrow> JUndefined
      | Some k \<Rightarrow> if k < length days then JString (days ! k) else JUndefined)"

text \<open>
  \<^verbatim>\<open>generateTodaysEntry\<close>. The clock is read once (\<^verbatim>\<open>new Date()\<close>); its ISO text and
  its weekday number are the first two arguments.
\<close>

definition generateTodaysEntry ::
  "string \<Rightarrow> nat \<Rightarrow> raw_work_item list \<Rightarrow> js_object list \<Rightarrow> js_object list \<Rightarrow> JournalEntry"
where
  "generateTodaysEntry todayISO todayDay rawItems rawPRs rawMeetings =
     (let workItemCategories = categorizeWorkItems rawItems
      in \<lparr> date = formatDate todayISO,
           dayOfWeek = getDayOfWeek (Some todayDay),
           workItems = workItemCategories,
           pullRequests = rawPRs,
           meetings = rawMeetings,
           accomplishments =
             map (\<lambda>item. ''Continued work on '' @ workItemType item @ '': '' @ title item
                    @ '' (ID: '' @ show_int (item_id item) @ '')'')
                 (inProgress workItemCategories),
           challenges = [],
           nextSteps =
             map (\<lambda>item. ''Start/continue '' @ workItemType item @ '': '' @ title item
                    @ '' (ID: '' @ show_int (item_id item) @ '')'')
                 (open' workItemCategories),
           mood = ''productive'',
           notes' = '''' \<rparr>)"

section \<open>Rendering\<close>

text \<open>
  The source writes \<^verbatim>\<open>\\n\<close> wherever it joins bullets: in a string or template literal
  that is an escaped backslash followed by the letter \<^verbatim>\<open>n\<close>, two characters, not a
  line feed. The line breaks typed inside the template literal are line feeds.
\<close>

definition escaped_n :: string where
  "escaped_n = [backslash, CHR ''n'']"

text \<open>The emoji of the section headings, as UTF-8.\<close>

definition emoji_clipboard :: string where
  "emoji_clipboard = [CHR 0xF0, CHR 0x9F, CHR 0x93, CHR 0x8B]"

definition emoji_arrows :: string where
  "emoji_arrows = [CHR 0xF0, CHR 0x9F, CHR 0x94, CHR 0x84]"

definition emoji_folder :: string where
  "emoji_folder = [CHR 0xF0, CHR 0x9F, CHR 0x93, CHR 0x82]"

definition emoji_pause :: string where
  "emoji_pause = [CHR 0xE2, CHR 0x8F, CHR 0xB8, CHR 0xEF, CHR 0xB8, CHR 0x8F]"

definition emoji_shuffle :: string where
  "emoji_shuffle = [CHR 0xF0, CHR 0x9F, CHR 0x94, CHR 0x80]"

definition emoji_calendar :: string where
  "emoji_calendar = [CHR 0xF0, CHR 0x9F, CHR 0x93, CHR 0x85]"

definition emoji_check :: string where
  "emoji_check = [CHR 0xE2, CHR 0x9C, CHR 0x85]"

definition emoji_construction :: string where
  "emoji_construction = [CHR 0xF0, CHR 0x9F, CHR 0x9A, CHR 0xA7]"

definition emoji_target :: string where
  "emoji_target = [CHR 0xF0, CHR 0x9F, CHR 0x8E, CHR 0xAF]"

definition emoji_smile :: string where
  "emoji_smile = [CHR 0xF0, CHR 0x9F, CHR 0x98, CHR 0x8A]"

definition emoji_memo :: string where
  "emoji_memo = [CHR 0xF0, CHR 0x9F, CHR 0x93, CHR 0x9D]"

text \<open>
  One bullet of a work-item subsection. \<^verbatim>\<open>item.tags ? ... : ''\<close> takes the first
  branch when the tags are present and not the empty string.
\<close>

definition itemBullet :: "WorkItem \<Rightarrow> string" where
  "itemBullet item =
     ''- **'' @ workItemType item @ '' #'' @ show_int (item_id item) @ ''**: '' @ title item
     @ (case tags item of
          None \<Rightarrow> ''''
        | Some t \<Rightarrow> if t \<noteq> '''' then escaped_n @ ''  _Tags: '' @ t @ ''_'' else '''')"

text \<open>
  The template writes the same expression for each of the three buckets, with its own
  placeholder, and again the same for accomplishments, challenges and next steps; each
  is one function here.
\<close>

definition itemsSection :: "string \<Rightarrow> WorkItem list \<Rightarrow> string" where
  "itemsSection placeholder items =
     (if length items = 0 then placeholder else join escaped_n (map itemBullet items))"

definition pullRequestsSection :: "JournalEntry \<Rightarrow> string" where
  "pullRequestsSection entry =
     (if length (pullRequests entry) = 0 then ''_No active pull requests_''
      else join escaped_n
             (map (\<lambda>pr. ''- **PR #'' @ template (getProp pr ''id'') @ ''**: ''
                     @ template (getProp pr ''title'') @ '' - ''
                     @ template (getProp pr ''status''))
                  (pullRequests entry)))"

definition meetingBullet :: "js_object \<Rightarrow> string" where
  "meetingBullet meeting =
     ''- '' @ template (getProp meeting ''time'') @ '': '' @ template (getProp meeting ''title'')"

definition meetingsSection :: "JournalEntry \<Rightarrow> string" where
  "meetingsSection entry =
     (if length (meetings entry) = 0 then ''_No meetings tracked_''
      else join escaped_n (map meetingBullet (meetings entry)))"

definition bulletsSection :: "string \<Rightarrow> string list \<Rightarrow> string" where
  "bulletsSection placeholder items =
     (if length items = 0 then placeholder
      else join escaped_n (map (\<lambda>item. ''- '' @ item) items))"

text \<open>
  \<^verbatim>\<open>generateMarkdown\<close>: the lines of the template literal, each ended by the line feed
  typed after it. The footer reads the clock again; its ISO text is the first argument.
\<close>

definition markdownLines :: "string \<Rightarrow> JournalEntry \<Rightarrow> string list" where
  "markdownLines nowISO entry =
     [ ''# Daily Journal - '' @ date entry @ '' ('' @ template (dayOfWeek entry) @ '')'',
       '''',
       ''## '' @ emoji_clipboard @ '' Work Items Status'',
       '''',
       ''### '' @ emoji_arrows @ '' In Progress'',
       itemsSection ''_No items in progress_'' (inProgress (workItems entry)),
       '''',
       ''### '' @ emoji_folder @ '' Open Items'',
       itemsSection ''_No open items_'' (open' (workItems entry)),
       '''',
       ''### '' @ emoji_pause @ '' Pending Items'',
       itemsSection ''_No pending items_'' (pending (workItems entry)),
       '''',
       ''## '' @ emoji_shuffle @ '' Pull Requests'',
       pullRequestsSection entry,
       '''',
       ''## '' @ emoji_calendar @ '' Meetings & Events'',
       meetingsSection entry,
       '''',
       ''## '' @ emoji_check @ '' Accomplishments'',
       bulletsSection ''_Add your accomplishments here_'' (accomplishments entry),
       '''',
       ''## '' @ emoji_construction @ '' Challenges'',
       bulletsSection ''_Add any challenges you faced_'' (challenges entry),
       '''',
       ''## '' @ emoji_target @ '' Next Steps'',
       bulletsSection ''_Add your planned next steps_'' (nextSteps entry),
       '''',
       ''## '' @ emoji_smile @ '' Mood: '' @ mood entry,
       '''',
       ''## '' @ emoji_memo @ '' Notes'',
       (if notes' entry \<noteq> '''' then notes' entry
        else ''_Add any additional notes or thoughts here_''),
       '''',
       ''---'',
       ''_Generated on '' @ nowISO @ ''_'' ]"

definition generateMarkdown :: "string \<Rightarrow> JournalEntry \<Rightarrow> string" where
  "generateMarkdown nowISO entry = concat (map (\<lambda>l. l @ [newline]) (markdownLines nowISO entry))"

section \<open>The entry store\<close>

text \<open>
  The journal directory is the list of its files, name and content, no name twice. The
  directory exists (the constructor creates it), holds regular files only, and a write
  into it succeeds. A file name is a single path component when it has no \<^verbatim>\<open>/\<close>; then
  \<^verbatim>\<open>path.join(journalDir, filename)\<close> is the directory, a \<^verbatim>\<open>/\<close> and the name, and it
  denotes the file of that name in the directory. A date with a \<^verbatim>\<open>/\<close> makes a path that
  leaves this directory listing; the model does not follow it and answers
  \<open>Unmodelled_Path\<close>.
\<close>

type_synonym directory = "(string \<times> string) list"

datatype store_error = Unmodelled_Path

definition path_join :: "string \<Rightarrow> string \<Rightarrow> string" where
  "path_join dir name = dir @ ''/'' @ name"

definition startsWith :: "string \<Rightarrow> string \<Rightarrow> bool" where
  "startsWith s p \<longleftrightarrow> take (length p) s = p"

definition endsWith :: "string \<Rightarrow> string \<Rightarrow> bool" where
  "endsWith s p \<longleftrightarrow> length p \<le> length s \<and> drop (length s - length p) s = p"

text \<open>\<^verbatim>\<open>s.replace(pat, rep)\<close> with a string pattern: the first occurrence only.\<close>

fun replaceFirst :: "string \<Rightarrow> string \<Rightarrow> string \<Rightarrow> string" where
  "replaceFirst pat rep [] = (if pat = [] then rep else [])"
| "replaceFirst pat rep (c # cs) =
     (if startsWith (c # cs) pat then rep @ drop (length pat) (c # cs)
      else c # replaceFirst pat rep cs)"

definition saveEntry ::
  "string \<Rightarrow> string \<Rightarrow> directory \<Rightarrow> JournalEntry \<Rightarrow> store_error + (string \<times> directory)"
where
  "saveEntry journalDir nowISO dir entry =
     (let filename = ''journal-'' @ date entry @ ''.md'';
          filepath = path_join journalDir filename;
          markdown = generateMarkdown nowISO entry
      in if CHR ''/'' \<in> set filename then Inl Unmodelled_Path
         else Inr (filepath, AList.update filename markdown dir))"

text \<open>
  \<^verbatim>\<open>loadEntry\<close>; \<open>None\<close> is \<^verbatim>\<open>null\<close>. The first argument is the built-in
  \<^verbatim>\<open>new Date(date).getDay()\<close>.
\<close>

definition loadEntry ::
  "(string \<Rightarrow> nat option) \<Rightarrow> directory \<Rightarrow> string \<Rightarrow> store_error + JournalEntry option"
where
  "loadEntry getDay dir dateArg =
     (let filename = ''journal-'' @ dateArg @ ''.md''
      in if CHR ''/'' \<in> set filename then Inl Unmodelled_Path
         else case map_of dir filename of
                None \<Rightarrow> Inr None
              | Some content \<Rightarrow>
                  Inr (Some \<lparr> date = dateArg,
                              dayOfWeek = getDayOfWeek (getDay dateArg),
                              workItems = \<lparr> inProgress = [], open' = [], pending = [] \<rparr>,
                              pullRequests = [],
                              meetings = [],
                              accomplishments = [],
                              challenges = [],
                              nextSteps = [],
                              mood = ''unknown'',
                              notes' = content \<rparr>))"

text \<open>
  \<^verbatim>\<open>listEntries\<close>. The default \<^verbatim>\<open>sort()\<close> orders strings by their code units, which
  for ASCII names is the lexicographic order of the bytes.
\<close>

definition isJournalFile :: "string \<Rightarrow> bool" where
  "isJournalFile file \<longleftrightarrow> startsWith file ''journal-'' \<and> endsWith file ''.md''"

definition stripName :: "string \<Rightarrow> string" where
  "stripName file = replaceFirst ''.md'' '''' (replaceFirst ''journal-'' '''' file)"

definition listEntries :: "directory \<Rightarrow> string list" where
  "listEntries dir = rev (sort (map stripName (filter isJournalFile (map fst dir))))"

text \<open>
  A date without \<^verbatim>\<open>/\<close> and without \<^verbatim>\<open>.\<close>, as every \<^verbatim>\<open>YYYY-MM-DD\<close> date is: its file
  is a journal file of the directory, and stripping the file name gives the date back.
\<close>

definition plainDate :: "string \<Rightarrow> bool" where
  "plainDate d \<longleftrightarrow> CHR ''/'' \<notin> set d \<and> CHR ''.'' \<notin> set d"

text \<open>The shape \<^verbatim>\<open>YYYY-MM-DD\<close> the data model gives the date of an entry.\<close>

definition isDigit :: "char \<Rightarrow> bool" where
  "isDigit c \<longleftrightarrow> CHR ''0'' \<le> c \<and> c \<le> CHR ''9''"

fun isoDate :: "string \<Rightarrow> bool" where
  "isoDate [y1, y2, y3, y4, s1, m1, m2, s2, d1, d2] \<longleftrightarrow>
     isDigit y1 \<and> isDigit y2 \<and> isDigit y3 \<and> isDigit y4 \<and> s1 = CHR ''-''
     \<and> isDigit m1 \<and> isDigit m2 \<and> s2 = CHR ''-'' \<and> isDigit d1 \<and> isDigit d2"
| "isoDate _ \<longleftrightarrow> False"

section \<open>The integrator\<close>

text \<open>\<^verbatim>\<open>calculateMood\<close>, on the raw work items and meetings.\<close>

definition calculateMood :: "raw_work_item list \<Rightarrow> js_object list \<Rightarrow> string" where
  "calculateMood rawItems rawMeetings =
     (let workloadScore = length rawItems;
          meetingLoad = length rawMeetings
      in if workloadScore < 3 \<and> meetingLoad < 4 then ''relaxed''
         else if workloadScore < 5 \<and> meetingLoad < 6 then ''productive''
         else if workloadScore < 8 then ''busy''
         else ''overwhelmed'')"

text \<open>
  \<^verbatim>\<open>enhanceJournalEntry(entry, {workItems, meetings, pullRequests})\<close>; the object
  spread with four overridden fields is a record update.
\<close>

definition contextualAccomplishments :: "js_object list \<Rightarrow> js_object list \<Rightarrow> string list" where
  "contextualAccomplishments rawMeetings rawPRs =
     (if find (\<lambda>m. getProp m ''type'' = JString ''review'') rawMeetings \<noteq> None
      then [''Participated in architecture review meeting''] else [])
     @ (if length rawPRs > 0
        then [''Created/reviewed '' @ show_nat (length rawPRs) @ '' pull request(s)''] else [])"

definition productivityNote :: "raw_work_item list \<Rightarrow> js_object list \<Rightarrow> string" where
  "productivityNote rawItems rawMeetings =
     (let totalWorkItems = length rawItems;
          activeItems = length (filter (\<lambda>item. System_State (fields' item) = ''In Progress''
                                          \<or> System_State (fields' item) = ''Active'') rawItems)
      in ''Productivity Overview: '' @ show_nat activeItems @ ''/'' @ show_nat totalWorkItems
         @ '' work items active, '' @ show_nat (length rawMeetings) @ '' meetings scheduled'')"

definition enhanceJournalEntry ::
  "JournalEntry \<Rightarrow> raw_work_item list \<Rightarrow> js_object list \<Rightarrow> js_object list \<Rightarrow> JournalEntry"
where
  "enhanceJournalEntry entry rawItems rawMeetings rawPRs =
     (let prioritizedNextSteps =
            nextSteps entry @ [''Review pending EUDB compliance requirements'',
                               ''Follow up on architecture review feedback'']
      in entry\<lparr> accomplishments :=
                   accomplishments entry @ contextualAccomplishments rawMeetings rawPRs,
                 nextSteps := prioritizedNextSteps,
                 notes' := productivityNote rawItems rawMeetings @ escaped_n @ escaped_n
                           @ notes' entry,
                 mood := calculateMood rawItems rawMeetings \<rparr>)"

text \<open>
  \<^verbatim>\<open>calculateStreakDays\<close>. The built-in \<^verbatim>\<open>new Date(s).getTime()\<close> is the first
  argument (\<open>None\<close> for the \<^verbatim>\<open>NaN\<close> of a text that is no date, which equals no index and
  ends the loop), the clock \<^verbatim>\<open>new Date().getTime()\<close> the second, both in milliseconds.
  The loop runs over the entries left, with the index \<open>i\<close> and the count so far.
  \<^verbatim>\<open>Math.floor\<close> of the quotient is the integer division: time values are integers, and
  for two instants less than \<open>2^26\<close> days apart the double-precision quotient has the
  floor of the exact one.
\<close>

fun streakLoop :: "(string \<Rightarrow> int option) \<Rightarrow> int \<Rightarrow> string list \<Rightarrow> nat \<Rightarrow> nat \<Rightarrow> nat" where
  "streakLoop getTime today [] i streak = streak"
| "streakLoop getTime today (e # es) i streak =
     (case getTime e of
        None \<Rightarrow> streak
      | Some entryTime \<Rightarrow>
          (let dayDiff = (today - entryTime) div (1000 * 60 * 60 * 24)
           in if dayDiff = int i then streakLoop getTime today es (Suc i) (Suc streak)
              else streak))"

definition calculateStreakDays :: "(string \<Rightarrow> int option) \<Rightarrow> int \<Rightarrow> string list \<Rightarrow> nat" where
  "calculateStreakDays getTime today entries =
     (if length entries = 0 then 0 else streakLoop getTime today entries 0 0)"

text \<open>The age of a stored date in whole days, as the specification words the streak.\<close>

definition ageInDays :: "(string \<Rightarrow> int option) \<Rightarrow> int \<Rightarrow> string \<Rightarrow> int option" where
  "ageInDays getTime today e = map_option (\<lambda>t. (today - t) div 86400000) (getTime e)"

definition streakPrefix :: "(string \<Rightarrow> int option) \<Rightarrow> int \<Rightarrow> string list \<Rightarrow> (nat \<times> string) list" where
  "streakPrefix getTime today entries =
     takeWhile (\<lambda>(i, e). ageInDays getTime today e = Some (int i)) (enumerate 0 entries)"

section \<open>The sample data of the source\<close>

definition rawItem :: "int \<Rightarrow> string \<Rightarrow> string \<Rightarrow> string \<Rightarrow> string \<Rightarrow> raw_work_item" where
  "rawItem n t s ty tg =
     \<lparr> raw_id = n,
       fields' = \<lparr> System_Title = t, System_State = s, System_WorkItemType = ty,
                   System_Tags = Some tg \<rparr> \<rparr>"

text \<open>The four work items at the end of \<^verbatim>\<open>journal-generator.ts\<close>.\<close>

definition sampleWorkItems :: "raw_work_item list" where
  "sampleWorkItems =
     [ rawItem 2523677
         (''[ACS][EUDB] Workstream 1: Comply with EU Data Boundary requirements for EUII/CC ''
          @ ''processing and storage only within EUDB by 06/30/22'')
         ''In Progress'' ''Feature''
         (''Consumer:IC3-ACS; CY21H2; CY22H2; dcrreview; EUDB; EUDB-IC3; IC3-ACS; IC3-EUDB-W1; ''
          @ ''IC3Horizontal; IC3horizontalapproved; Producer:IC3-ACS; Semester:Cu; ''
          @ ''Spool2HCY2023-Dependencies''),
       rawItem 2572902
         ''[ACS] Data tagging for SMBA and ACS auth (identified during bot implementation)''
         ''Pending'' ''Exception'' ''IC3 ACS'',
       rawItem 2627349
         (''[ACS][EUDB] Workstream 2: Re-design & provision EUPI pipelines/storage by 6/30/22 ''
          @ ''to route processing and storage of EUPI in the EU by 12/31/22'')
         ''Open'' ''Feature''
         (''Consumer:IC3-ACS; CY22H2; IC3Horizontal; IC3horizontalapproved; PartnerAsk; ''
          @ ''Producer:IC3-ACS; Semester:Cu; Spool2HCY2023-Dependencies''),
       rawItem 2627393
         (''[ACS][EUDB] Workstream 3: For EUDB tenants, Process and Store Support data in EU ''
          @ ''by Dec 31, 2022'')
         ''Open'' ''Feature''
         ''IC3Horizontal; PartnerAsk; Producer:IC3-ACS; Semester:Cu; Semester:Ni'' ]"

text \<open>The two work items the integrator fetches.\<close>

definition fetchedWorkItems :: "raw_work_item list" where
  "fetchedWorkItems = take 2 sampleWorkItems"

text \<open>Five work items, one for each label of the switch, in mixed case.\<close>

definition fiveLabelItems :: "raw_work_item list" where
  "fiveLabelItems =
     [ rawItem 1 ''a'' ''In Progress'' ''Task'' '''',
       rawItem 2 ''b'' ''ACTIVE'' ''Task'' '''',
       rawItem 3 ''c'' ''Pending'' ''Bug'' '''',
       rawItem 4 ''d'' ''open'' ''Bug'' '''',
       rawItem 5 ''e'' ''New'' ''Feature'' '''' ]"

text \<open>The three calendar events and the pull request the integrator fetches.\<close>

definition standupMeeting :: js_object where
  "standupMeeting =
     [ (''title'', JString ''Daily Standup - ACS Team''),
       (''startTime'', JString ''09:00 AM''),
       (''endTime'', JString ''09:30 AM''),
       (''attendees'', JNumber 5),
       (''type'', JString ''meeting'') ]"

definition reviewMeeting :: js_object where
  "reviewMeeting =
     [ (''title'', JString ''EUDB Architecture Review''),
       (''startTime'', JString ''2:00 PM''),
       (''endTime'', JString ''3:00 PM''),
       (''attendees'', JNumber 12),
       (''type'', JString ''review'') ]"

definition focusMeeting :: js_object where
  "focusMeeting =
     [ (''title'', JString ''Focus Time - Code Review''),
       (''startTime'', JString ''10:00 AM''),
       (''endTime'', JString ''11:30 AM''),
       (''attendees'', JNumber 1),
       (''type'', JString ''focus'') ]"

definition fetchedMeetings :: "js_object list" where
  "fetchedMeetings = [standupMeeting, reviewMeeting, focusMeeting]"

definition fetchedPullRequests :: "js_object list" where
  "fetchedPullRequests =
     [ [ (''id'', JNumber 12345),
         (''title'', JString ''Fix EUDB compliance validation logic''),
         (''status'', JString ''Active''),
         (''reviewers'', JStrings [''john.doe'', ''jane.smith'']),
         (''createdDate'', JString ''2025-10-01T08:00:00.000Z''),
         (''repository'', JString ''acs-backend'') ] ]"

text \<open>The entry built from that data on Wednesday 2025-10-01, and the same enhanced.\<close>

definition builtEntry :: JournalEntry where
  "builtEntry =
     generateTodaysEntry ''2025-10-01T08:00:00.000Z'' 3 fetchedWorkItems fetchedPullRequests
       fetchedMeetings"

definition enhancedEntry :: JournalEntry where
  "enhancedEntry = enhanceJournalEntry builtEntry fetchedWorkItems fetchedMeetings fetchedPullRequests"

text \<open>
  A clock at noon UTC on 2025-10-03 and the time values, at midnight UTC, of three dates:
  that day, the day before and three days before.
\<close>

definition sampleGetTime :: "string \<Rightarrow> int option" where
  "sampleGetTime s =
     (if s = ''2025-10-03'' then Some 1759449600000
      else if s = ''2025-10-02'' then Some 1759363200000
      else if s = ''2025-09-30'' then Some 1759190400000
      else None)"

definition sampleToday :: int where
  "sampleToday = 1759492800000"

text \<open>
  A journal directory with one stored entry and one other file, and the weekday built-in
  on the date of that entry (a Tuesday).
\<close>

definition sampleDirectory :: directory where
  "sampleDirectory = [(''notes.txt'', ''scratch''), (''journal-2025-09-30.md'', ''old entry'')]"

definition sampleGetDay :: "string \<Rightarrow> nat option" where
  "sampleGetDay s = (if s = ''2025-09-30'' then Some 2 else None)"

section \<open>Evaluation lemmas\<close>

lemma show_nat_small: "n < 10 \<Longrightarrow> show_nat n = [''0123456789'' ! n]"
  by (simp add: show_nat.simps)

lemma show_nat_large:
  "\<not> n < 10 \<Longrightarrow> show_nat n = show_nat (n div 10) @ [''0123456789'' ! (n mod 10)]"
  by (subst show_nat.simps) simp

lemmas show_eval = show_nat_small show_nat_large show_int_def

section \<open>Classification\<close>

lemma labels_lower:
  "toLowerCase ''in progress'' = ''in progress''"
  "toLowerCase ''active'' = ''active''"
  "toLowerCase ''pending'' = ''pending''"
  "toLowerCase ''open'' = ''open''"
  "toLowerCase ''new'' = ''new''"
  by (simp_all add: toLowerCase_def toLowerCase_char_def)

lemma state_predicates:
  "isInProgressState s \<longleftrightarrow> toLowerCase s = ''in progress'' \<or> toLowerCase s = ''active''"
  "isPendingState s \<longleftrightarrow> toLowerCase s = ''pending''"
  "isOpenState s \<longleftrightarrow> toLowerCase s = ''open'' \<or> toLowerCase s = ''new''"
  by (simp_all add: isInProgressState_def isPendingState_def isOpenState_def
      equalsIgnoreCase_def labels_lower)

lemma state_exclusive:
  "\<not> (isInProgressState s \<and> isPendingState s)"
  "\<not> (isInProgressState s \<and> isOpenState s)"
  "\<not> (isPendingState s \<and> isOpenState s)"
  by (auto simp: state_predicates)

lemma categorize_step_inProgress:
  "inProgress (categorize_step acc item) =
     inProgress acc
     @ (if isInProgressState (System_State (fields' item)) then [toWorkItem item] else [])"
  by (auto simp: categorize_step_def Let_def state_predicates)

lemma categorize_step_pending:
  "pending (categorize_step acc item) =
     pending acc
     @ (if isPendingState (System_State (fields' item)) then [toWorkItem item] else [])"
  by (auto simp: categorize_step_def Let_def state_predicates)

lemma categorize_step_open:
  "open' (categorize_step acc item) =
     open' acc @ (if isOpenState (System_State (fields' item)) then [toWorkItem item] else [])"
  by (auto simp: categorize_step_def Let_def state_predicates)

lemma foldl_categorize_inProgress:
  "inProgress (foldl categorize_step acc items) =
     inProgress acc
     @ map toWorkItem (filter (\<lambda>i. isInProgressState (System_State (fields' i))) items)"
  by (induction items arbitrary: acc) (simp_all add: categorize_step_inProgress)

lemma foldl_categorize_pending:
  "pending (foldl categorize_step acc items) =
     pending acc
     @ map toWorkItem (filter (\<lambda>i. isPendingState (System_State (fields' i))) items)"
  by (induction items arbitrary: acc) (simp_all add: categorize_step_pending)

lemma foldl_categorize_open:
  "open' (foldl categorize_step acc items) =
     open' acc @ map toWorkItem (filter (\<lambda>i. isOpenState (System_State (fields' i))) items)"
  by (induction items arbitrary: acc) (simp_all add: categorize_step_open)

lemma buckets:
  "inProgress (categorizeWorkItems items) =
     map toWorkItem (filter (\<lambda>i. isInProgressState (System_State (fields' i))) items)"
  "pending (categorizeWorkItems items) =
     map toWorkItem (filter (\<lambda>i. isPendingState (System_State (fields' i))) items)"
  "open' (categorizeWorkItems items) =
     map toWorkItem (filter (\<lambda>i. isOpenState (System_State (fields' i))) items)"
  by (simp_all add: categorizeWorkItems_def foldl_categorize_inProgress
      foldl_categorize_pending foldl_categorize_open)

text \<open>
  C1. For every sequence of raw work items, \<open>categorizeWorkItems\<close> puts into the
  inProgress bucket exactly the items whose state is, case ignored, \<^verbatim>\<open>in progress\<close> or
  \<^verbatim>\<open>active\<close>, into the pending bucket those whose state is \<^verbatim>\<open>pending\<close>, into the open
  bucket those whose state is \<^verbatim>\<open>open\<close> or \<^verbatim>\<open>new\<close>; each bucket is the input filtered,
  so it keeps the input order, and an item with any other state is in no bucket. The
  function is total: there is no error.
\<close>

theorem categorizeWorkItems_classifies:
  "inProgress (categorizeWorkItems items) =
     map toWorkItem
       (filter (\<lambda>i. equalsIgnoreCase (System_State (fields' i)) ''in progress''
                   \<or> equalsIgnoreCase (System_State (fields' i)) ''active'') items)
   \<and> pending (categorizeWorkItems items) =
     map toWorkItem
       (filter (\<lambda>i. equalsIgnoreCase (System_State (fields' i)) ''pending'') items)
   \<and> open' (categorizeWorkItems items) =
     map toWorkItem
       (filter (\<lambda>i. equalsIgnoreCase (System_State (fields' i)) ''open''
                   \<or> equalsIgnoreCase (System_State (fields' i)) ''new'') items)"
  using buckets [of items]
  by (simp add: isInProgressState_def isPendingState_def isOpenState_def)

lemmas lower_eval = toLowerCase_def toLowerCase_char_def char_of_def bit_Suc_0_iff

lemma bucket_lengths:
  "length (inProgress (categorizeWorkItems items)) + length (open' (categorizeWorkItems items))
     + length (pending (categorizeWorkItems items))
   = length (filter (\<lambda>i. recognizedState (System_State (fields' i))) items)"
  unfolding buckets
  by (induction items) (use state_exclusive in \<open>auto simp: recognizedState_def\<close>)

lemma bucket_states:
  "w \<in> set (inProgress (categorizeWorkItems items)) \<Longrightarrow> isInProgressState (state w)"
  "w \<in> set (pending (categorizeWorkItems items)) \<Longrightarrow> isPendingState (state w)"
  "w \<in> set (open' (categorizeWorkItems items)) \<Longrightarrow> isOpenState (state w)"
  by (auto simp: buckets toWorkItem_def)

lemma buckets_mset:
  "mset (inProgress (categorizeWorkItems items)) + mset (open' (categorizeWorkItems items))
     + mset (pending (categorizeWorkItems items))
   = mset (map toWorkItem (filter (\<lambda>i. recognizedState (System_State (fields' i))) items))"
  unfolding buckets
  by (induction items) (use state_exclusive in \<open>auto simp: recognizedState_def\<close>)

text \<open>
  C2, as stated, speaks of four recognised labels. The switch has five: the five items
  below have states that differ pairwise even when case is ignored, and all five are
  classified, so the bucket lengths add up to the input length. No set of four labels
  describes the inputs on which equality holds.
\<close>

theorem five_labels_counterexample:
  "length (inProgress (categorizeWorkItems fiveLabelItems))
     + length (open' (categorizeWorkItems fiveLabelItems))
     + length (pending (categorizeWorkItems fiveLabelItems)) = length fiveLabelItems
   \<and> length fiveLabelItems = 5
   \<and> distinct (map toLowerCase (map System_State (map fields' fiveLabelItems)))"
  by (simp add: fiveLabelItems_def rawItem_def categorizeWorkItems_def categorize_step_def
      lower_eval)

text \<open>
  C2, amended to the five labels. For every list of raw work items the lengths of the
  three buckets add up to at most the input length, with equality if and only if every
  item's state is, case ignored, one of \<^verbatim>\<open>in progress\<close>, \<^verbatim>\<open>active\<close>, \<^verbatim>\<open>pending\<close>,
  \<^verbatim>\<open>open\<close>, \<^verbatim>\<open>new\<close>; the buckets are pairwise disjoint, and together they hold each
  item with a recognised state as often as the input does, and nothing else.
\<close>

theorem categorizeWorkItems_partition:
  "length (inProgress (categorizeWorkItems items)) + length (open' (categorizeWorkItems items))
     + length (pending (categorizeWorkItems items)) \<le> length items
   \<and> (length (inProgress (categorizeWorkItems items))
         + length (open' (categorizeWorkItems items))
         + length (pending (categorizeWorkItems items)) = length items
      \<longleftrightarrow> (\<forall>i \<in> set items. recognizedState (System_State (fields' i))))
   \<and> set (inProgress (categorizeWorkItems items)) \<inter> set (open' (categorizeWorkItems items)) = {}
   \<and> set (inProgress (categorizeWorkItems items)) \<inter> set (pending (categorizeWorkItems items)) = {}
   \<and> set (open' (categorizeWorkItems items)) \<inter> set (pending (categorizeWorkItems items)) = {}
   \<and> mset (inProgress (categorizeWorkItems items)) + mset (open' (categorizeWorkItems items))
        + mset (pending (categorizeWorkItems items))
      = mset (map toWorkItem (filter (\<lambda>i. recognizedState (System_State (fields' i))) items))"
proof -
  let ?c = "categorizeWorkItems items"
  have disj: "set (inProgress ?c) \<inter> set (open' ?c) = {}"
    "set (inProgress ?c) \<inter> set (pending ?c) = {}"
    "set (open' ?c) \<inter> set (pending ?c) = {}"
    using bucket_states [of _ items] state_exclusive by blast+
  have eq: "(length (filter (\<lambda>i. recognizedState (System_State (fields' i))) items) = length items)
     \<longleftrightarrow> (\<forall>i \<in> set items. recognizedState (System_State (fields' i)))"
    by (metis filter_True length_filter_less less_irrefl)
  show ?thesis
    using disj eq by (simp add: bucket_lengths buckets_mset)
qed

lemma recognizedState_eval:
  "recognizedState s \<longleftrightarrow>
     toLowerCase s = ''in progress'' \<or> toLowerCase s = ''active'' \<or> toLowerCase s = ''pending''
     \<or> toLowerCase s = ''open'' \<or> toLowerCase s = ''new''"
  by (auto simp: recognizedState_def state_predicates)

theorem categorizeWorkItems_partition_witness:
  "list_all (\<lambda>i. recognizedState (System_State (fields' i))) sampleWorkItems
   \<and> length sampleWorkItems = 4
   \<and> length (inProgress (categorizeWorkItems sampleWorkItems))
        + length (open' (categorizeWorkItems sampleWorkItems))
        + length (pending (categorizeWorkItems sampleWorkItems)) = 4"
proof -
  have all: "\<forall>i \<in> set sampleWorkItems. recognizedState (System_State (fields' i))"
    by (simp add: sampleWorkItems_def rawItem_def recognizedState_eval lower_eval)
  have len: "length sampleWorkItems = 4"
    by (simp add: sampleWorkItems_def)
  show ?thesis
    using all len categorizeWorkItems_partition [of sampleWorkItems]
    by (simp add: list_all_iff)
qed

section \<open>Mood\<close>

text \<open>
  C3. For every list of raw work items and of raw meetings, \<open>calculateMood\<close> depends on
  the two lengths only and applies the ordered first-match policy: workload below 3 and
  meetings below 4 give relaxed; otherwise workload below 5 and meetings below 6 give
  productive; otherwise workload below 8 gives busy; otherwise overwhelmed. So
  mood(2,3) is relaxed, mood(4,5) productive, mood(6,1) busy and mood(9,0) overwhelmed.
\<close>

theorem calculateMood_policy:
  "calculateMood ws ms =
     (if length ws < 3 \<and> length ms < 4 then ''relaxed''
      else if length ws < 5 \<and> length ms < 6 then ''productive''
      else if length ws < 8 then ''busy''
      else ''overwhelmed'')
   \<and> calculateMood (replicate 2 w) (replicate 3 m) = ''relaxed''
   \<and> calculateMood (replicate 4 w) (replicate 5 m) = ''productive''
   \<and> calculateMood (replicate 6 w) (replicate 1 m) = ''busy''
   \<and> calculateMood (replicate 9 w) (replicate 0 m) = ''overwhelmed''"
  by (simp add: calculateMood_def Let_def)

section \<open>Enhancement\<close>

lemma enhance_nextSteps:
  "nextSteps (enhanceJournalEntry e ws ms prs) =
     nextSteps e @ [''Review pending EUDB compliance requirements'',
                    ''Follow up on architecture review feedback'']"
  by (simp add: enhanceJournalEntry_def Let_def)

lemma enhance_mood: "mood (enhanceJournalEntry e ws ms prs) = calculateMood ws ms"
  by (simp add: enhanceJournalEntry_def Let_def)

lemma enhance_notes:
  "notes' (enhanceJournalEntry e ws ms prs) =
     ''Productivity Overview: ''
     @ show_nat (length (filter (\<lambda>item. System_State (fields' item) = ''In Progress''
                                  \<or> System_State (fields' item) = ''Active'') ws))
     @ ''/'' @ show_nat (length ws) @ '' work items active, '' @ show_nat (length ms)
     @ '' meetings scheduled'' @ [backslash, CHR ''n'', backslash, CHR ''n''] @ notes' e"
  by (simp add: enhanceJournalEntry_def productivityNote_def Let_def escaped_n_def)

lemma builtEntry_notes: "notes' builtEntry = ''''"
  by (simp add: builtEntry_def generateTodaysEntry_def Let_def)

lemma builtEntry_meetings: "meetings builtEntry = fetchedMeetings"
  by (simp add: builtEntry_def generateTodaysEntry_def Let_def)

text \<open>
  C4, evaluated on the data the integrator fetches (two work items, one of them in
  progress, and three meetings) and the entry built from it, whose notes are empty. The
  productivity line is the one the claim gives, with the case-sensitive count 1 of 2. What
  follows it is not a blank line: the notes continue with a backslash, the letter n, a
  backslash and the letter n (the source writes \<^verbatim>\<open>\\n\\n\<close> in the template literal), and
  they hold no line feed at all.
\<close>

theorem enhance_notes_sample:
  "notes' enhancedEntry =
     ''Productivity Overview: 1/2 work items active, 3 meetings scheduled''
     @ [backslash, CHR ''n'', backslash, CHR ''n''] @ notes' builtEntry
   \<and> notes' enhancedEntry \<noteq>
     ''Productivity Overview: 1/2 work items active, 3 meetings scheduled''
     @ [newline, newline] @ notes' builtEntry
   \<and> newline \<notin> set (notes' enhancedEntry)"
  by (simp add: enhancedEntry_def enhance_notes builtEntry_notes fetchedWorkItems_def
      sampleWorkItems_def rawItem_def fetchedMeetings_def show_eval backslash_def newline_def)

text \<open>
  C6. For every entry and raw data, one application of \<open>enhanceJournalEntry\<close> appends the
  two fixed next steps, and a second application with the same raw data appends them
  again, so the result of two applications always differs from the result of one; the
  mood after two applications is the mood after one.
\<close>

theorem enhance_not_idempotent:
  "nextSteps (enhanceJournalEntry e ws ms prs) =
     nextSteps e @ [''Review pending EUDB compliance requirements'',
                    ''Follow up on architecture review feedback'']
   \<and> nextSteps (enhanceJournalEntry (enhanceJournalEntry e ws ms prs) ws ms prs) =
     nextSteps e @ [''Review pending EUDB compliance requirements'',
                    ''Follow up on architecture review feedback'',
                    ''Review pending EUDB compliance requirements'',
                    ''Follow up on architecture review feedback'']
   \<and> enhanceJournalEntry (enhanceJournalEntry e ws ms prs) ws ms prs
       \<noteq> enhanceJournalEntry e ws ms prs
   \<and> mood (enhanceJournalEntry (enhanceJournalEntry e ws ms prs) ws ms prs) =
     mood (enhanceJournalEntry e ws ms prs)"
proof -
  have "length (nextSteps (enhanceJournalEntry (enhanceJournalEntry e ws ms prs) ws ms prs))
       \<noteq> length (nextSteps (enhanceJournalEntry e ws ms prs))"
    by (simp add: enhance_nextSteps)
  then have "enhanceJournalEntry (enhanceJournalEntry e ws ms prs) ws ms prs
       \<noteq> enhanceJournalEntry e ws ms prs"
    by metis
  then show ?thesis
    by (simp add: enhance_nextSteps enhance_mood)
qed

text \<open>
  C10. For every entry and raw data, the entry \<open>enhanceJournalEntry\<close> returns has the
  date, dayOfWeek, workItems buckets, pullRequests, meetings and challenges of the input
  entry: only accomplishments, nextSteps, notes and mood are overridden.
\<close>

theorem enhance_frame:
  "date (enhanceJournalEntry e ws ms prs) = date e
   \<and> dayOfWeek (enhanceJournalEntry e ws ms prs) = dayOfWeek e
   \<and> workItems (enhanceJournalEntry e ws ms prs) = workItems e
   \<and> pullRequests (enhanceJournalEntry e ws ms prs) = pullRequests e
   \<and> meetings (enhanceJournalEntry e ws ms prs) = meetings e
   \<and> challenges (enhanceJournalEntry e ws ms prs) = challenges e"
  by (simp add: enhanceJournalEntry_def Let_def)

section \<open>The Meetings section\<close>

lemma meetingsSection_empty:
  "meetings e = [] \<Longrightarrow> meetingsSection e = ''_No meetings tracked_''"
  by (simp add: meetingsSection_def)

lemma meetingsSection_rendered:
  "markdownLines now e ! 16 = ''## '' @ emoji_calendar @ '' Meetings & Events''"
  "markdownLines now e ! 17 = meetingsSection e"
  by (simp_all add: markdownLines_def)

lemma meetingBullet_no_time:
  "map_of meeting ''time'' = None \<Longrightarrow>
   meetingBullet meeting = ''- undefined: '' @ template (getProp meeting ''title'')"
  by (simp add: meetingBullet_def getProp_def)

text \<open>
  C5, evaluated on the entry built from the three calendar events the integrator fetches,
  records with the properties title, startTime, endTime, attendees and type. The renderer
  reads the property \<^verbatim>\<open>time\<close>, which these records do not have, so each bullet shows the
  word undefined where the meeting's time should be; and the bullets are joined by a
  backslash and the letter n, not by a line feed, so they are one line of the file.
\<close>

theorem meetingsSection_sample:
  "meetingsSection builtEntry =
     ''- undefined: Daily Standup - ACS Team'' @ [backslash, CHR ''n'']
     @ ''- undefined: EUDB Architecture Review'' @ [backslash, CHR ''n'']
     @ ''- undefined: Focus Time - Code Review''"
  by (simp add: meetingsSection_def builtEntry_meetings fetchedMeetings_def standupMeeting_def
      reviewMeeting_def focusMeeting_def meetingBullet_def getProp_def escaped_n_def)

section \<open>Streak\<close>

lemma streakLoop_prefix:
  "streakLoop g t es i s =
     s + length (takeWhile (\<lambda>(j, e). ageInDays g t e = Some (int j)) (enumerate i es))"
  by (induction es arbitrary: i s) (auto simp: ageInDays_def Let_def split: option.splits)

lemma calculateStreakDays_streakPrefix:
  "calculateStreakDays g t entries = length (streakPrefix g t entries)"
  by (cases entries) (simp_all add: calculateStreakDays_def streakPrefix_def streakLoop_prefix del: streakLoop.simps)


lemma takeWhile_enumerate_nth:
  "k < length (takeWhile (\<lambda>(j, e). P j e) (enumerate i es)) \<Longrightarrow> P (i + k) (es ! k)"
proof -
  assume k: "k < length (takeWhile (\<lambda>(j, e). P j e) (enumerate i es))"
  let ?xs = "enumerate i es"
  have le: "length (takeWhile (\<lambda>(j, e). P j e) ?xs) \<le> length es"
    using length_takeWhile_le [of "\<lambda>(j, e). P j e" ?xs] by simp
  have "takeWhile (\<lambda>(j, e). P j e) ?xs ! k \<in> set (takeWhile (\<lambda>(j, e). P j e) ?xs)"
    using k by (rule nth_mem)
  then have "(\<lambda>(j, e). P j e) (takeWhile (\<lambda>(j, e). P j e) ?xs ! k)"
    by (rule set_takeWhileD [THEN conjunct2])
  moreover have "takeWhile (\<lambda>(j, e). P j e) ?xs ! k = ?xs ! k"
    using k by (rule takeWhile_nth)
  moreover have "?xs ! k = (i + k, es ! k)"
    using k le by (simp add: nth_enumerate_eq)
  ultimately show ?thesis by simp
qed

lemma takeWhile_enumerate_stop:
  "length (takeWhile (\<lambda>(j, e). P j e) (enumerate i es)) < length es \<Longrightarrow>
   \<not> P (i + length (takeWhile (\<lambda>(j, e). P j e) (enumerate i es)))
        (es ! length (takeWhile (\<lambda>(j, e). P j e) (enumerate i es)))"
proof -
  let ?xs = "enumerate i es"
  let ?n = "length (takeWhile (\<lambda>(j, e). P j e) ?xs)"
  assume a: "?n < length es"
  then have n: "?n < length ?xs" by simp
  then have "\<not> (\<lambda>(j, e). P j e) (?xs ! ?n)"
    by (rule nth_length_takeWhile)
  moreover have "?xs ! ?n = (i + ?n, es ! ?n)"
    using a by (simp add: nth_enumerate_eq)
  ultimately show ?thesis by simp
qed


lemma streak_le: "calculateStreakDays g t entries \<le> length entries"
  unfolding calculateStreakDays_streakPrefix streakPrefix_def
  using length_takeWhile_le [of "\<lambda>(i, e). ageInDays g t e = Some (int i)" "enumerate 0 entries"]
  by simp

lemma streak_all:
  "i < calculateStreakDays g t entries \<Longrightarrow> ageInDays g t (entries ! i) = Some (int i)"
  unfolding calculateStreakDays_streakPrefix streakPrefix_def
  using takeWhile_enumerate_nth [of i "\<lambda>j e. ageInDays g t e = Some (int j)" 0 entries]
  by simp

lemma streak_stop:
  "calculateStreakDays g t entries < length entries \<Longrightarrow>
   ageInDays g t (entries ! calculateStreakDays g t entries)
     \<noteq> Some (int (calculateStreakDays g t entries))"
  unfolding calculateStreakDays_streakPrefix streakPrefix_def
  using takeWhile_enumerate_stop [of "\<lambda>j e. ageInDays g t e = Some (int j)" 0 entries]
  by simp

lemma streak_example:
  "ageInDays g t d0 = Some 0 \<Longrightarrow> ageInDays g t d1 = Some 1 \<Longrightarrow> ageInDays g t d2 = Some 3
   \<Longrightarrow> calculateStreakDays g t [d0, d1, d2] = 2"
  by (auto simp: calculateStreakDays_def ageInDays_def)

text \<open>
  C7. For every list of stored dates, every clock and every date parser, the streak
  \<open>calculateStreakDays\<close> returns is the length of the longest prefix of the list in
  which the date at each index \<open>i\<close> is \<open>i\<close> whole days old: it is at most the length of
  the list, every date before it has the age of its index, and the date at it, when there
  is one, has not. For three dates of ages 0, 1 and 3 the streak is 2, and for the empty
  list it is 0.
\<close>

theorem calculateStreakDays_longest_prefix:
  "calculateStreakDays g t entries = length (streakPrefix g t entries)
   \<and> calculateStreakDays g t entries \<le> length entries
   \<and> (\<forall>i < calculateStreakDays g t entries. ageInDays g t (entries ! i) = Some (int i))
   \<and> (calculateStreakDays g t entries < length entries \<longrightarrow>
        ageInDays g t (entries ! calculateStreakDays g t entries)
          \<noteq> Some (int (calculateStreakDays g t entries)))
   \<and> (ageInDays g t d0 = Some 0 \<and> ageInDays g t d1 = Some 1 \<and> ageInDays g t d2 = Some 3
        \<longrightarrow> calculateStreakDays g t [d0, d1, d2] = 2)
   \<and> calculateStreakDays g t [] = 0"
proof (intro conjI allI impI)
  show "calculateStreakDays g t entries = length (streakPrefix g t entries)"
    by (rule calculateStreakDays_streakPrefix)
  show "calculateStreakDays g t entries \<le> length entries"
    by (rule streak_le)
  show "ageInDays g t (entries ! i) = Some (int i)" if "i < calculateStreakDays g t entries" for i
    using that by (rule streak_all)
  show "ageInDays g t (entries ! calculateStreakDays g t entries)
          \<noteq> Some (int (calculateStreakDays g t entries))"
    if "calculateStreakDays g t entries < length entries"
    using that by (rule streak_stop)
  show "calculateStreakDays g t [d0, d1, d2] = 2"
    if "ageInDays g t d0 = Some 0 \<and> ageInDays g t d1 = Some 1 \<and> ageInDays g t d2 = Some 3"
    using that by (simp add: streak_example)
  show "calculateStreakDays g t [] = 0"
    by (simp add: calculateStreakDays_def)
qed


lemma sample_ages:
  "ageInDays sampleGetTime sampleToday ''2025-10-03'' = Some 0"
  "ageInDays sampleGetTime sampleToday ''2025-10-02'' = Some 1"
  "ageInDays sampleGetTime sampleToday ''2025-09-30'' = Some 3"
  by (simp_all add: ageInDays_def sampleGetTime_def sampleToday_def)

theorem calculateStreakDays_longest_prefix_witness:
  "ageInDays sampleGetTime sampleToday ''2025-10-03'' = Some 0
   \<and> ageInDays sampleGetTime sampleToday ''2025-10-02'' = Some 1
   \<and> ageInDays sampleGetTime sampleToday ''2025-09-30'' = Some 3
   \<and> calculateStreakDays sampleGetTime sampleToday
        [''2025-10-03'', ''2025-10-02'', ''2025-09-30''] = 2"
proof -
  have ages: "ageInDays sampleGetTime sampleToday ''2025-10-03'' = Some 0
      \<and> ageInDays sampleGetTime sampleToday ''2025-10-02'' = Some 1
      \<and> ageInDays sampleGetTime sampleToday ''2025-09-30'' = Some 3"
    by (simp add: sample_ages)
  have "ageInDays sampleGetTime sampleToday ''2025-10-03'' = Some 0
      \<and> ageInDays sampleGetTime sampleToday ''2025-10-02'' = Some 1
      \<and> ageInDays sampleGetTime sampleToday ''2025-09-30'' = Some 3
      \<longrightarrow> calculateStreakDays sampleGetTime sampleToday
        [''2025-10-03'', ''2025-10-02'', ''2025-09-30''] = 2"
    using calculateStreakDays_longest_prefix
      [of sampleGetTime sampleToday "[''2025-10-03'', ''2025-10-02'', ''2025-09-30'']"
        "''2025-10-03''" "''2025-10-02''" "''2025-09-30''"]
    by (elim conjE)
  with ages show ?thesis by (elim conjE impE) (intro conjI; assumption)+
qed

section \<open>Saving, listing and loading\<close>

lemma replaceFirst_journal: "replaceFirst ''journal-'' '''' (''journal-'' @ x) = x"
  by (simp add: startsWith_def)

lemma replaceFirst_md: "CHR ''.'' \<notin> set d \<Longrightarrow> replaceFirst ''.md'' '''' (d @ ''.md'') = d"
  by (induction d) (auto simp: startsWith_def)

lemma stripName_journalFile:
  "CHR ''.'' \<notin> set d \<Longrightarrow> stripName (''journal-'' @ d @ ''.md'') = d"
  unfolding stripName_def replaceFirst_journal by (rule replaceFirst_md)

lemma isJournalFile_journalFile: "isJournalFile (''journal-'' @ d @ ''.md'')"
  by (simp add: isJournalFile_def startsWith_def endsWith_def)

lemma journalFile_slash:
  "CHR ''/'' \<in> set (''journal-'' @ d @ ''.md'') \<longleftrightarrow> CHR ''/'' \<in> set d"
  by auto

lemma isoDate_plain: "isoDate d \<Longrightarrow> plainDate d"
  by (erule isoDate.elims) (auto simp: plainDate_def isDigit_def)

lemma saveEntry_plain:
  "CHR ''/'' \<notin> set (date e) \<Longrightarrow>
   saveEntry jd now dir e =
     Inr (jd @ ''/journal-'' @ date e @ ''.md'',
          AList.update (''journal-'' @ date e @ ''.md'') (generateMarkdown now e) dir)"
  by (simp add: saveEntry_def Let_def path_join_def)

lemma listEntries_set:
  "set (listEntries dir) = stripName ` {f \<in> fst ` set dir. isJournalFile f}"
  by (auto simp: listEntries_def)

lemma listEntries_descending: "sorted_wrt (\<lambda>a b. b \<le> a) (listEntries dir)"
  by (simp add: listEntries_def sorted_wrt_rev)

lemma listEntries_member:
  "CHR ''.'' \<notin> set d \<Longrightarrow> ''journal-'' @ d @ ''.md'' \<in> fst ` set dir \<Longrightarrow> d \<in> set (listEntries dir)"
  unfolding listEntries_set
  using isJournalFile_journalFile [of d] stripName_journalFile [of d] by force


lemma update_names_overwrite:
  "k \<in> fst ` set al \<Longrightarrow> map fst (AList.update k v al) = map fst al"
  by (simp add: update_keys)

lemma update_other: "f \<noteq> k \<Longrightarrow> map_of (AList.update k v al) f = map_of al f"
  by (simp add: update_conv')

lemma update_same: "map_of (AList.update k v al) k = Some v"
  by (simp add: update_conv')

lemma update_member: "k \<in> fst ` set (AList.update k v al)"
  by (simp add: dom_update)

lemma one_file:
  "distinct names \<Longrightarrow> f \<in> set names \<Longrightarrow> length (filter (\<lambda>n. n = f) names) = 1"
  by (induction names) (auto simp: filter_empty_conv)

text \<open>
  C8. For every entry whose date has no \<^verbatim>\<open>/\<close> and no \<^verbatim>\<open>.\<close> (every \<^verbatim>\<open>YYYY-MM-DD\<close>
  date) and every journal directory, \<open>saveEntry\<close> returns the path of the file
  \<^verbatim>\<open>journal-<date>.md\<close> in the journal directory and leaves that file holding the
  rendered entry, every other file as it was and no name twice. Afterwards \<open>listEntries\<close>
  returns the stripped names of all journal files of the directory, in descending order,
  and the saved date is among them. Saving any entry of the same date again returns the
  same path, keeps the file names of the directory, so there is exactly one file of that
  name, and leaves it holding the second render.
\<close>

theorem saveEntry_then_listEntries:
  assumes "plainDate (date e)" and "distinct (map fst dir)"
  shows "\<exists>dir'. saveEntry jd now dir e = Inr (jd @ ''/journal-'' @ date e @ ''.md'', dir')
     \<and> map_of dir' (''journal-'' @ date e @ ''.md'') = Some (generateMarkdown now e)
     \<and> (\<forall>f. f \<noteq> ''journal-'' @ date e @ ''.md'' \<longrightarrow> map_of dir' f = map_of dir f)
     \<and> distinct (map fst dir')
     \<and> set (listEntries dir') = stripName ` {f \<in> fst ` set dir'. isJournalFile f}
     \<and> sorted_wrt (\<lambda>a b. b \<le> a) (listEntries dir')
     \<and> date e \<in> set (listEntries dir')
     \<and> (\<forall>e2 now2. date e2 = date e \<longrightarrow>
          (\<exists>dir''. saveEntry jd now2 dir' e2 = Inr (jd @ ''/journal-'' @ date e @ ''.md'', dir'')
             \<and> map fst dir'' = map fst dir'
             \<and> length (filter (\<lambda>n. n = ''journal-'' @ date e @ ''.md'') (map fst dir'')) = 1
             \<and> map_of dir'' (''journal-'' @ date e @ ''.md'') = Some (generateMarkdown now2 e2)
             \<and> (\<forall>f. f \<noteq> ''journal-'' @ date e @ ''.md'' \<longrightarrow> map_of dir'' f = map_of dir f)
             \<and> listEntries dir'' = listEntries dir'))"
proof -
  let ?f = "''journal-'' @ date e @ ''.md''"
  let ?dir' = "AList.update ?f (generateMarkdown now e) dir"
  have slash: "CHR ''/'' \<notin> set (date e)" and dot: "CHR ''.'' \<notin> set (date e)"
    using assms(1) by (simp_all add: plainDate_def)
  have save: "saveEntry jd now dir e = Inr (jd @ ''/journal-'' @ date e @ ''.md'', ?dir')"
    using slash by (rule saveEntry_plain)
  have mem: "?f \<in> fst ` set ?dir'"
    by (rule update_member)
  have dist: "distinct (map fst ?dir')"
    using assms(2) by (rule distinct_update)
  have listed: "date e \<in> set (listEntries ?dir')"
    using dot mem by (rule listEntries_member)
  have again: "\<exists>dir''. saveEntry jd now2 ?dir' e2 = Inr (jd @ ''/journal-'' @ date e @ ''.md'', dir'')
             \<and> map fst dir'' = map fst ?dir'
             \<and> length (filter (\<lambda>n. n = ?f) (map fst dir'')) = 1
             \<and> map_of dir'' ?f = Some (generateMarkdown now2 e2)
             \<and> (\<forall>f. f \<noteq> ?f \<longrightarrow> map_of dir'' f = map_of dir f)
             \<and> listEntries dir'' = listEntries ?dir'"
    if d: "date e2 = date e" for e2 now2
  proof -
    let ?dir'' = "AList.update ?f (generateMarkdown now2 e2) ?dir'"
    have s2: "saveEntry jd now2 ?dir' e2 = Inr (jd @ ''/journal-'' @ date e @ ''.md'', ?dir'')"
      using saveEntry_plain [of e2 jd now2 ?dir'] slash d by simp
    have names: "map fst ?dir'' = map fst ?dir'"
      using mem by (rule update_names_overwrite)
    have one: "length (filter (\<lambda>n. n = ?f) (map fst ?dir'')) = 1"
      unfolding names using dist mem by (intro one_file) simp_all
    have other: "\<forall>f. f \<noteq> ?f \<longrightarrow> map_of ?dir'' f = map_of dir f"
      by (simp add: update_other)
    have lst: "listEntries ?dir'' = listEntries ?dir'"
      unfolding listEntries_def names ..
    show ?thesis
      using s2 names one other lst update_same [of ?f "generateMarkdown now2 e2" ?dir'] by blast
  qed
  have other: "\<forall>f. f \<noteq> ?f \<longrightarrow> map_of ?dir' f = map_of dir f"
    by (simp add: update_other)
  show ?thesis
    using save dist listed again other update_same [of ?f "generateMarkdown now e" dir]
      listEntries_set [of ?dir'] listEntries_descending [of ?dir']
    by blast
qed


lemma enhancedEntry_date: "date enhancedEntry = ''2025-10-01''"
  by (simp add: enhancedEntry_def enhanceJournalEntry_def builtEntry_def generateTodaysEntry_def
      Let_def formatDate_def)

theorem saveEntry_then_listEntries_witness:
  "plainDate (date enhancedEntry) \<and> distinct (map fst sampleDirectory)
   \<and> (\<exists>dir'. saveEntry ''/home/me/journal-entries'' ''2025-10-01T08:00:01.000Z''
                 sampleDirectory enhancedEntry
               = Inr (''/home/me/journal-entries/journal-2025-10-01.md'', dir')
             \<and> map_of dir' ''journal-2025-10-01.md''
               = Some (generateMarkdown ''2025-10-01T08:00:01.000Z'' enhancedEntry)
             \<and> ''2025-10-01'' \<in> set (listEntries dir'))"
proof -
  have plain: "plainDate (date enhancedEntry)"
    by (simp add: enhancedEntry_date plainDate_def)
  have dist: "distinct (map fst sampleDirectory)"
    by (simp add: sampleDirectory_def)
  show ?thesis
    using plain dist
      saveEntry_then_listEntries [OF plain dist, of "''/home/me/journal-entries''"
        "''2025-10-01T08:00:01.000Z''"]
    unfolding enhancedEntry_date by auto
qed

text \<open>
  C9. For every date without \<^verbatim>\<open>/\<close> (every \<^verbatim>\<open>YYYY-MM-DD\<close> date) and every journal
  directory, \<open>loadEntry\<close> returns \<^verbatim>\<open>null\<close> exactly when the directory has no file
  \<^verbatim>\<open>journal-<date>.md\<close>; when it has one, \<open>loadEntry\<close> returns an entry of that date
  whose notes are the content of the file, whose mood is \<^verbatim>\<open>unknown\<close>, and whose work-item
  buckets, pullRequests, meetings, accomplishments, challenges and nextSteps are empty.
\<close>

theorem loadEntry_degraded:
  assumes "CHR ''/'' \<notin> set d"
  shows "(loadEntry getDay dir d = Inr None \<longleftrightarrow> map_of dir (''journal-'' @ d @ ''.md'') = None)
     \<and> (\<forall>content. map_of dir (''journal-'' @ d @ ''.md'') = Some content \<longrightarrow>
          (\<exists>entry. loadEntry getDay dir d = Inr (Some entry)
             \<and> notes' entry = content
             \<and> mood entry = ''unknown''
             \<and> workItems entry = \<lparr> inProgress = [], open' = [], pending = [] \<rparr>
             \<and> pullRequests entry = []
             \<and> meetings entry = []
             \<and> accomplishments entry = []
             \<and> challenges entry = []
             \<and> nextSteps entry = []
             \<and> date entry = d))"
  using assms by (auto simp: loadEntry_def Let_def split: option.splits)

theorem loadEntry_degraded_witness:
  "CHR ''/'' \<notin> set ''2025-09-30'' \<and> CHR ''/'' \<notin> set ''2025-10-01''
   \<and> map_of sampleDirectory ''journal-2025-09-30.md'' = Some ''old entry''
   \<and> map_of sampleDirectory ''journal-2025-10-01.md'' = None
   \<and> loadEntry sampleGetDay sampleDirectory ''2025-10-01'' = Inr None
   \<and> (\<exists>entry. loadEntry sampleGetDay sampleDirectory ''2025-09-30'' = Inr (Some entry)
         \<and> notes' entry = ''old entry'' \<and> mood entry = ''unknown'')"
proof -
  have s1: "CHR ''/'' \<notin> set ''2025-09-30''" and s2: "CHR ''/'' \<notin> set ''2025-10-01''"
    by simp_all
  have f1: "map_of sampleDirectory (''journal-'' @ ''2025-09-30'' @ ''.md'') = Some ''old entry''"
    and f2: "map_of sampleDirectory (''journal-'' @ ''2025-10-01'' @ ''.md'') = None"
    by (simp_all add: sampleDirectory_def)
  show ?thesis
    using s1 s2 f1 f2
      loadEntry_degraded [OF s1, of sampleGetDay sampleDirectory]
      loadEntry_degraded [OF s2, of sampleGetDay sampleDirectory]
    by auto
qed

end
